theory Spec2Isabelle
  imports Main
begin

section \<open>The Image Tool block (src/index.ts)\<close>

text \<open>
  The class \<open>ImageTool\<close> keeps the block data in the private object \<open>_data\<close> and
  reads and writes it by property name (\<open>this.data[name as keyof ImageToolData]\<close>,
  \<open>this._data[tuneName as keyof ImageToolData] = value\<close>). The casts \<open>as boolean\<close>,
  \<open>as keyof ImageToolData\<close> and \<open>as SizeOptions\<close> are erased when the program runs, so the
  data object is modelled as JavaScript has it: a table that gives, for every property
  name, what reading that property returns. An object written as a literal inherits from
  \<open>Object.prototype\<close>, so a name that was never written reads as what \<open>Object.prototype\<close>
  holds under it, and as \<open>undefined\<close> when it holds nothing.

  Parameters are modelled at their declared types: a tune name is any string, the value
  of \<open>setTune\<close> is a boolean.
\<close>

subsection \<open>JavaScript values and strings\<close>

text \<open>The file reference \<open>{ url: string }\<close> of \<open>set image\<close> and of the upload response.\<close>

record file_ref =
  url :: string

text \<open>
  Modelled from the spec: the declarations of \<open>ImageToolData\<close> and \<open>SizeOptions\<close>
  (\<open>types/types.ts\<close>) are not among the sources; the persisted shape gives a string
  caption, a boolean \<open>withBorder\<close>, a size that is one of the strings \<open>"30"\<close>, \<open>"50"\<close>,
  \<open>"70"\<close>, \<open>"100"\<close> or \<open>undefined\<close>, and a file \<open>{ url: string }\<close>. These are the values
  a property of the data object can hold. Reading a name that the object inherits gives
  one of the two further values: a built-in function of \<open>Object.prototype\<close>, with its name,
  or \<open>Object.prototype\<close> itself.
\<close>

datatype jsval =
    JUndefined
  | JBool bool
  | JString string
  | JFile file_ref
  | JFunction string
  | JObjectPrototype

text \<open>An object, as the table of what reading each of its properties returns.\<close>

type_synonym js_object = "string \<Rightarrow> jsval"

text \<open>
  What \<open>Object.prototype\<close> holds: eleven functions, and the accessor \<open>__proto__\<close>, whose
  getter returns the prototype of the object it is read from, here \<open>Object.prototype\<close>.
\<close>

definition object_prototype :: "(string \<times> jsval) list" where
  "object_prototype =
     [(''constructor'', JFunction ''Object''),
      (''__defineGetter__'', JFunction ''__defineGetter__''),
      (''__defineSetter__'', JFunction ''__defineSetter__''),
      (''hasOwnProperty'', JFunction ''hasOwnProperty''),
      (''__lookupGetter__'', JFunction ''__lookupGetter__''),
      (''__lookupSetter__'', JFunction ''__lookupSetter__''),
      (''isPrototypeOf'', JFunction ''isPrototypeOf''),
      (''propertyIsEnumerable'', JFunction ''propertyIsEnumerable''),
      (''toString'', JFunction ''toString''),
      (''valueOf'', JFunction ''valueOf''),
      (''__proto__'', JObjectPrototype),
      (''toLocaleString'', JFunction ''toLocaleString'')]"

text \<open>The object \<open>{}\<close>: every name reads as \<open>Object.prototype\<close> has it.\<close>

definition empty_object :: js_object where
  "empty_object = (\<lambda>k. case map_of object_prototype k of Some v \<Rightarrow> v | None \<Rightarrow> JUndefined)"

text \<open>
  \<open>obj[k] = b\<close> for a boolean \<open>b\<close>, on an object that inherits from \<open>Object.prototype\<close>.
  The name \<open>__proto__\<close> is an accessor there: its setter is called, and it does nothing
  with a value that is not an object. Every other name becomes, or stays, a property of
  the object itself, since what \<open>Object.prototype\<close> holds under the other names is
  writable.
\<close>

definition assign_boolean :: "js_object \<Rightarrow> string \<Rightarrow> bool \<Rightarrow> js_object" where
  "assign_boolean obj k b = (if k = ''__proto__'' then obj else obj(k := JBool b))"

text \<open>JavaScript's truthiness, as \<open>if (v)\<close>, \<open>!v\<close>, \<open>a || b\<close> and \<open>a && b\<close> use it.\<close>

fun truthy :: "jsval \<Rightarrow> bool" where
  "truthy JUndefined = False"
| "truthy (JBool b) = b"
| "truthy (JString s) = (s \<noteq> [])"
| "truthy (JFile f) = True"
| "truthy (JFunction n) = True"
| "truthy JObjectPrototype = True"

text \<open>
  The string a value becomes in \<open>"size" + v\<close>. For a built-in function the text is the
  engine's own; it is given as V8 prints it.
\<close>

fun js_to_string :: "jsval \<Rightarrow> string" where
  "js_to_string JUndefined = ''undefined''"
| "js_to_string (JBool b) = (if b then ''true'' else ''false'')"
| "js_to_string (JString s) = s"
| "js_to_string (JFile f) = ''[object Object]''"
| "js_to_string (JFunction n) = ''function '' @ n @ ''() { [native code] }''"
| "js_to_string JObjectPrototype = ''[object Object]''"

text \<open>
  The property \<open>url\<close> of a value that is not \<open>undefined\<close>: a file reference has one; a
  boolean, a string, a built-in function and \<open>Object.prototype\<close> have none. Reading it
  from \<open>undefined\<close> throws; every caller below tests for that case before it reads.
\<close>

fun url_of :: "jsval \<Rightarrow> jsval" where
  "url_of (JFile f) = JString (url f)"
| "url_of v = JUndefined"

text \<open>\<open>s.startsWith(p)\<close>.\<close>

definition startsWith :: "string \<Rightarrow> string \<Rightarrow> bool" where
  "startsWith s p = (take (length p) s = p)"

text \<open>\<open>s.replace(p, r)\<close> with a string pattern: the first occurrence of \<open>p\<close> is replaced.\<close>

fun replace :: "string \<Rightarrow> string \<Rightarrow> string \<Rightarrow> string" where
  "replace [] p r = (if p = [] then r else [])"
| "replace (c # cs) p r =
     (if startsWith (c # cs) p then r @ drop (length p) (c # cs)
      else c # replace cs p r)"

subsection \<open>Collaborators: the calls the tool makes on them\<close>

text \<open>
  Modelled from the spec: the upload response \<open>UploadResponseFormat\<close> (\<open>types/types.ts\<close>,
  not among the sources) has the shape \<open>{ success: boolean, file?: { url: string } }\<close>.
\<close>

record upload_response =
  success :: bool
  file' :: "file_ref option"   \<comment> \<open>\<open>file?\<close>: absent is \<open>None\<close>\<close>

text \<open>
  The text handed to \<open>uploadingFailed\<close>: either
  \<open>"incorrect response: " + JSON.stringify(response)\<close>, from \<open>onUpload\<close>, or the error the
  uploader reports through \<open>onError\<close>.
\<close>

datatype error_text = IncorrectResponse upload_response | UploaderError string

text \<open>
  Modelled from the spec: the rendering module (\<open>ui.ts\<close>), the editor's API
  (\<open>api.notifier\<close>, \<open>api.i18n\<close>), the console and the document are outside \<open>index.ts\<close>.
  Their contract is a list of operations with no result the tool reads and with no
  failure named, so each call the tool makes is recorded, in order, in the state, and
  returns.
\<close>

datatype effect =
    FillImage jsval                 \<comment> \<open>\<open>this.ui.fillImage(file.url)\<close>\<close>
  | ApplyTune string jsval          \<comment> \<open>\<open>this.ui.applyTune(name, value)\<close>\<close>
  | HidePreloader                   \<comment> \<open>\<open>this.ui.hidePreloader()\<close>\<close>
  | NotifierShow string string      \<comment> \<open>\<open>this.api.notifier.show({message: t(..), style})\<close>\<close>
  | ConsoleLog string error_text    \<comment> \<open>\<open>console.log(text, errorText)\<close>\<close>
  | RemoveActiveMarker string
      \<comment> \<open>\<open>document.querySelector(`.ce-popover-item[data-item-name="${name}"]`)
            ?.classList.remove("ce-popover-item--active")\<close>\<close>

text \<open>The exception the code itself can raise: reading a property of \<open>undefined\<close>.\<close>

datatype error = TypeError

subsection \<open>The tool's state\<close>

record image_tool =
  data :: js_object       \<comment> \<open>\<open>private _data\<close>, read through \<open>get data()\<close>\<close>
  isDataInit :: bool
  effects :: "effect list"

text \<open>
  Modelled from the spec: a tune descriptor \<open>ActionConfig\<close> (\<open>types/types.ts\<close>) has a name,
  an icon, a title, a \<open>toggle\<close> flag and an optional custom \<open>action\<close>, which no built-in
  tune has. The icons are the constants imported from \<open>@codexteam/icons\<close>.
\<close>

datatype icon = IconAddBorder | IconStretch | IconAddBackground | IconPicture

record action_config =
  name :: string
  icon :: icon
  title :: string
  toggle :: bool

text \<open>\<open>static get tunes()\<close>.\<close>

definition tunes :: "action_config list" where
  "tunes =
    [\<lparr>name = ''withBorder'', icon = IconAddBorder, title = ''With border'', toggle = True\<rparr>,
     \<lparr>name = ''size30'', icon = IconStretch, title = ''Resize to 30%'', toggle = True\<rparr>,
     \<lparr>name = ''size50'', icon = IconStretch, title = ''Resize to 50%'', toggle = True\<rparr>,
     \<lparr>name = ''size70'', icon = IconStretch, title = ''Resize to 70%'', toggle = True\<rparr>,
     \<lparr>name = ''size100'', icon = IconStretch, title = ''Resize to 100%'', toggle = True\<rparr>]"

subsection \<open>Operations\<close>

text \<open>\<open>validate(savedData)\<close>: \<open>!!savedData.file.url\<close>.\<close>

definition validate :: "js_object \<Rightarrow> error + bool" where
  "validate savedData =
     (if savedData ''file'' = JUndefined then Inl TypeError
      else Inr (truthy (url_of (savedData ''file''))))"

text \<open>\<open>save()\<close>: \<open>return this.data\<close>.\<close>

definition save :: "image_tool \<Rightarrow> js_object" where
  "save s = data s"

text \<open>\<open>isTuneActive(name)\<close>.\<close>

definition isTuneActive :: "image_tool \<Rightarrow> string \<Rightarrow> jsval" where
  "isTuneActive s n =
     (if \<not> startsWith n ''size'' then data s n
      else if data s ''size'' = JUndefined then JBool False
      else JBool (''size'' @ js_to_string (data s ''size'') = n))"

text \<open>\<open>set image(file)\<close>.\<close>

definition set_image :: "jsval \<Rightarrow> image_tool \<Rightarrow> image_tool" where
  "set_image f s =
     (let s1 = s\<lparr>data := (data s)(''file'' := (if truthy f then f else JFile \<lparr>url = ''''\<rparr>))\<rparr>
      in if truthy f \<and> truthy (url_of f)
         then s1\<lparr>effects := effects s1 @ [FillImage (url_of f)]\<rparr>
         else s1)"

text \<open>
  The message of the error notification. Its apostrophe is U+2019, three bytes in
  UTF-8.
\<close>

definition upload_failed_message :: string where
  "upload_failed_message =
     ''Couldn'' @ [CHR 0xE2, CHR 0x80, CHR 0x99] @ ''t upload image. Please try another.''"

text \<open>\<open>uploadingFailed(errorText)\<close>.\<close>

definition uploadingFailed :: "error_text \<Rightarrow> image_tool \<Rightarrow> image_tool" where
  "uploadingFailed errorText s =
     s\<lparr>effects := effects s @
         [ConsoleLog ''Image Tool: uploading failed because of'' errorText,
          NotifierShow upload_failed_message ''error'',
          HidePreloader]\<rparr>"

text \<open>
  \<open>onUpload(response)\<close>. The uploader hands over what the transport or a custom uploader
  resolved with; when that is no object (\<open>None\<close>), reading \<open>response.success\<close> throws,
  before anything is written or called.
\<close>

definition onUpload :: "upload_response option \<Rightarrow> image_tool \<Rightarrow> error + image_tool" where
  "onUpload resp s =
     (case resp of
        None \<Rightarrow> Inl TypeError
      | Some response \<Rightarrow>
          Inr (if success response then
                 (case file' response of
                    Some f \<Rightarrow> set_image (JFile f) s
                  | None \<Rightarrow> uploadingFailed (IncorrectResponse response) s)
               else uploadingFailed (IncorrectResponse response) s))"

text \<open>
  One round of the loop of \<open>setTune\<close> over \<open>ImageTool.tunes\<close>: another size tune that is
  active loses its marker in the popover and its style. The loop does not write the
  data.
\<close>

definition deactivate_other :: "string \<Rightarrow> image_tool \<Rightarrow> action_config \<Rightarrow> image_tool" where
  "deactivate_other tuneName s item =
     (if startsWith (name item) ''size'' \<and> name item \<noteq> tuneName
          \<and> truthy (isTuneActive s (name item))
      then s\<lparr>effects := effects s @
                [RemoveActiveMarker (name item), ApplyTune (name item) (JBool False)]\<rparr>
      else s)"

text \<open>\<open>setTune(tuneName, value)\<close>.\<close>

definition setTune :: "string \<Rightarrow> bool \<Rightarrow> image_tool \<Rightarrow> image_tool" where
  "setTune tuneName v s =
     (let s1 =
        (if startsWith tuneName ''size'' then
           (if \<not> isDataInit s then s
            else if v then
              (let s2 = foldl (deactivate_other tuneName) s tunes
               in s2\<lparr>data := (data s2)(''size'' := JString (replace tuneName ''size'' ''''))\<rparr>)
            else s\<lparr>data := (data s)(''size'' := JUndefined)\<rparr>)
         else s\<lparr>data := assign_boolean (data s) tuneName v\<rparr>)
      in s1\<lparr>effects := effects s1 @ [ApplyTune tuneName (JBool v)]\<rparr>)"

text \<open>\<open>tuneToggled(tuneName)\<close>.\<close>

definition tuneToggled :: "string \<Rightarrow> image_tool \<Rightarrow> image_tool" where
  "tuneToggled tuneName s = setTune tuneName (\<not> truthy (isTuneActive s tuneName)) s"

text \<open>
  One round of the loop of \<open>set data\<close>:
  \<open>const value = this.isTuneActive(tune); this.setTune(tune, value)\<close>. For a size name
  \<open>isTuneActive\<close> returns a boolean. For another name it returns what the property reads;
  when that is not a boolean, \<open>setTune\<close> assigns to the property the value just read from
  it, which leaves every read of the data as it was, and hands that value to the
  rendering module.
\<close>

definition restore_tune :: "image_tool \<Rightarrow> action_config \<Rightarrow> image_tool" where
  "restore_tune t tune =
     (case isTuneActive t (name tune) of
        JBool b \<Rightarrow> setTune (name tune) b t
      | v \<Rightarrow> t\<lparr>effects := effects t @ [ApplyTune (name tune) v]\<rparr>)"

text \<open>\<open>set data(data)\<close>: the argument is the saved object.\<close>

definition set_data :: "js_object \<Rightarrow> image_tool \<Rightarrow> image_tool" where
  "set_data d s =
     (let s1 = set_image (d ''file'') s;
          s2 = s1\<lparr>data := (data s1)(''size'' := d ''size'')\<rparr>;
          s3 = foldl restore_tune s2 tunes
      in s3\<lparr>isDataInit := True\<rparr>)"

text \<open>
  The data the constructor starts from, before the saved data is assigned: an object
  literal with the four properties.
\<close>

definition default_data :: js_object where
  "default_data =
     empty_object(''caption'' := JString '''', ''withBorder'' := JBool False,
                  ''size'' := JUndefined, ''file'' := JFile \<lparr>url = ''''\<rparr>)"

text \<open>The state of the constructor just before \<open>this.data = data\<close>.\<close>

definition fresh_tool :: image_tool where
  "fresh_tool = \<lparr>data = default_data, isDataInit = False, effects = []\<rparr>"

text \<open>The constructor, as far as the state is concerned: \<open>this._data = {..}; this.data = data\<close>.\<close>

definition constructor :: "js_object \<Rightarrow> image_tool" where
  "constructor d = set_data d fresh_tool"

subsection \<open>The calls the host and the uploader make on a block\<close>

text \<open>
  After construction the block is driven through \<open>setTune\<close>, \<open>tuneToggled\<close> (the handler
  \<open>renderSettings\<close> installs for a tune without a custom action) and the two callbacks
  handed to the uploader, \<open>onUpload\<close> and \<open>onError\<close>. A history of the block is a list of
  such calls. A call of \<open>onUpload\<close> that throws does so before it writes or calls
  anything, so it leaves the block as it was.
\<close>

datatype event =
    SetTune string bool
  | TuneToggled string
  | OnUpload "upload_response option"
  | UploadingFailed error_text

fun step :: "image_tool \<Rightarrow> event \<Rightarrow> image_tool" where
  "step s (SetTune n v) = setTune n v s"
| "step s (TuneToggled n) = tuneToggled n s"
| "step s (OnUpload r) = (case onUpload r s of Inl e \<Rightarrow> s | Inr t \<Rightarrow> t)"
| "step s (UploadingFailed e) = uploadingFailed e s"

definition run :: "image_tool \<Rightarrow> event list \<Rightarrow> image_tool" where
  "run s evs = foldl step s evs"

subsection \<open>Notions the properties are stated with\<close>

text \<open>The size tunes among \<open>ImageTool.tunes\<close>, and those of them that are active.\<close>

definition size_tunes :: "string list" where
  "size_tunes = filter (\<lambda>n. startsWith n ''size'') (map name tunes)"

definition active_size_tunes :: "image_tool \<Rightarrow> string list" where
  "active_size_tunes s = filter (\<lambda>n. truthy (isTuneActive s n)) size_tunes"

text \<open>
  What deactivating every other active size tune asks of the collaborators: for each
  built-in size tune other than \<open>n\<close> that is active in \<open>s\<close>, in the order of
  \<open>ImageTool.tunes\<close>, its marker is removed and the rendering module is told.
\<close>

definition deactivations :: "string \<Rightarrow> image_tool \<Rightarrow> action_config list \<Rightarrow> effect list" where
  "deactivations n s ts =
     concat (map (\<lambda>item. [RemoveActiveMarker (name item), ApplyTune (name item) (JBool False)])
       (filter (\<lambda>item. startsWith (name item) ''size'' \<and> name item \<noteq> n
                        \<and> truthy (isTuneActive s (name item))) ts))"

text \<open>
  Saved data as the data model describes it: a file with a non-empty url, a caption, a
  border flag, and a size that is unset or one of the four percentages.
\<close>

definition valid_block_data :: "js_object \<Rightarrow> bool" where
  "valid_block_data d =
     ((case d ''file'' of JFile f \<Rightarrow> url f \<noteq> [] | _ \<Rightarrow> False) \<and>
      (case d ''caption'' of JString c \<Rightarrow> True | _ \<Rightarrow> False) \<and>
      (case d ''withBorder'' of JBool b \<Rightarrow> True | _ \<Rightarrow> False) \<and>
      d ''size'' \<in> set [JUndefined, JString ''30'', JString ''50'', JString ''70'',
                         JString ''100''])"

definition saved_example :: js_object where
  "saved_example =
     empty_object(''file'' := JFile \<lparr>url = ''http://x/y.png''\<rparr>, ''caption'' := JString ''Hi'',
                  ''withBorder'' := JBool False, ''size'' := JString ''50'')"

text \<open>The calls that assign the property \<open>caption\<close> of the data.\<close>

fun writes_caption :: "event \<Rightarrow> bool" where
  "writes_caption (SetTune n v) = (n = ''caption'')"
| "writes_caption (TuneToggled n) = (n = ''caption'')"
| "writes_caption e = False"

fun is_notification :: "effect \<Rightarrow> bool" where
  "is_notification (NotifierShow m st) = True"
| "is_notification e = False"


section \<open>Auxiliary facts\<close>

subsection \<open>Tune names\<close>

lemma four_eq: "(4::nat) = Suc (Suc (Suc (Suc 0)))"
  by simp

lemma startsWith_names [simp]:
  "\<not> startsWith ''withBorder'' ''size''" "\<not> startsWith ''caption'' ''size''"
  "\<not> startsWith ''file'' ''size''" "\<not> startsWith ''__proto__'' ''size''"
  "\<not> startsWith ''toString'' ''size''" "startsWith ''size'' ''size''"
  "startsWith ''size30'' ''size''" "startsWith ''size50'' ''size''"
  "startsWith ''size70'' ''size''" "startsWith ''size100'' ''size''"
  by (simp_all add: startsWith_def)

lemma replace_prefix: "startsWith n p \<Longrightarrow> replace n p r = r @ drop (length p) n"
  by (cases n) (auto simp: startsWith_def)

lemma size_suffix: "startsWith n ''size'' \<Longrightarrow> replace n ''size'' '''' = drop 4 n"
  by (simp add: replace_prefix four_eq)

lemma size_split: "startsWith n ''size'' \<Longrightarrow> ''size'' @ drop 4 n = n"
proof -
  assume "startsWith n ''size''"
  then have "take 4 n = ''size''"
    by (simp add: startsWith_def four_eq)
  then have "take 4 n @ drop 4 n = ''size'' @ drop 4 n"
    by simp
  then show ?thesis
    by simp
qed

lemma size_name_eq: "startsWith n ''size'' \<Longrightarrow> (''size'' @ p = n) = (p = drop 4 n)"
  using size_split [of n] by auto

lemmas size_split_cons = size_split [simplified]
lemmas size_name_eq_cons = size_name_eq [simplified]

lemma size_tunes_eq: "size_tunes = [''size30'', ''size50'', ''size70'', ''size100'']"
  by (simp add: size_tunes_def tunes_def)

subsection \<open>What each operation does to the three parts of the state\<close>

lemma empty_object_names [simp]:
  "empty_object ''file'' = JUndefined" "empty_object ''caption'' = JUndefined"
  "empty_object ''withBorder'' = JUndefined" "empty_object ''size'' = JUndefined"
  "empty_object ''__proto__'' = JObjectPrototype"
  "empty_object ''toString'' = JFunction ''toString''"
  by (simp_all add: empty_object_def object_prototype_def)

lemma assign_boolean_other: "k \<noteq> n \<Longrightarrow> assign_boolean obj n b k = obj k"
  by (simp add: assign_boolean_def)

lemma assign_boolean_same: "obj n = JBool b \<Longrightarrow> assign_boolean obj n b = obj"
  by (auto simp: assign_boolean_def)

lemma isTuneActive_effects [simp]: "isTuneActive (s\<lparr>effects := e\<rparr>) n = isTuneActive s n"
  by (simp add: isTuneActive_def)

lemma deactivate_other_data [simp]: "data (deactivate_other n s item) = data s"
  by (simp add: deactivate_other_def)

lemma deactivate_other_init [simp]: "isDataInit (deactivate_other n s item) = isDataInit s"
  by (simp add: deactivate_other_def)

lemma deactivate_other_active [simp]:
  "isTuneActive (deactivate_other n s item) m = isTuneActive s m"
  by (simp add: isTuneActive_def)

lemma fold_deactivate_data [simp]: "data (foldl (deactivate_other n) s ts) = data s"
  by (induction ts arbitrary: s) simp_all

lemma fold_deactivate_init [simp]:
  "isDataInit (foldl (deactivate_other n) s ts) = isDataInit s"
  by (induction ts arbitrary: s) simp_all

lemma fold_deactivate_effects:
  "effects (foldl (deactivate_other n) s ts) = effects s @ deactivations n s ts"
proof (induction ts arbitrary: s)
  case Nil
  show ?case by (simp add: deactivations_def)
next
  case (Cons t ts)
  have same: "deactivations n (deactivate_other n s t) ts = deactivations n s ts"
    by (simp add: deactivations_def)
  show ?case
    by (simp add: Cons.IH same) (simp add: deactivations_def deactivate_other_def)
qed

lemma setTune_data:
  "data (setTune n v s) =
     (if startsWith n ''size'' then
        (if \<not> isDataInit s then data s
         else if v then (data s)(''size'' := JString (drop 4 n))
         else (data s)(''size'' := JUndefined))
      else assign_boolean (data s) n v)"
  by (simp add: setTune_def Let_def size_suffix)

lemma setTune_init [simp]: "isDataInit (setTune n v s) = isDataInit s"
  by (simp add: setTune_def Let_def)

lemma setTune_effects:
  "effects (setTune n v s) =
     effects s @
     (if startsWith n ''size'' \<and> isDataInit s \<and> v then deactivations n s tunes else [])
     @ [ApplyTune n (JBool v)]"
  by (simp add: setTune_def Let_def fold_deactivate_effects)

lemma set_image_data:
  "data (set_image f s) = (data s)(''file'' := (if truthy f then f else JFile \<lparr>url = ''''\<rparr>))"
  by (simp add: set_image_def Let_def)

lemma set_image_init [simp]: "isDataInit (set_image f s) = isDataInit s"
  by (simp add: set_image_def Let_def)

lemma set_image_effects:
  "effects (set_image f s) =
     effects s @ (if truthy f \<and> truthy (url_of f) then [FillImage (url_of f)] else [])"
  by (simp add: set_image_def Let_def)

lemma uploadingFailed_data [simp]: "data (uploadingFailed e s) = data s"
  by (simp add: uploadingFailed_def)

lemma uploadingFailed_init [simp]: "isDataInit (uploadingFailed e s) = isDataInit s"
  by (simp add: uploadingFailed_def)

text \<open>Without a response object \<open>onUpload\<close> throws.\<close>

lemma onUpload_no_response: "onUpload None s = Inl TypeError"
  by (simp add: onUpload_def)

subsection \<open>The constructor\<close>

text \<open>
  While \<open>isDataInit\<close> is false a round of the loop of \<open>set data\<close> leaves the data as it
  is: for a size name nothing is written, and another name is assigned the value it
  already reads.
\<close>

lemma restore_tune_init [simp]: "isDataInit (restore_tune t tune) = isDataInit t"
  by (simp add: restore_tune_def split: jsval.splits)

lemma restore_tune_data: "\<not> isDataInit t \<Longrightarrow> data (restore_tune t tune) = data t"
proof (cases "isTuneActive t (name tune)")
  case (JBool b)
  assume fresh: "\<not> isDataInit t"
  show ?thesis
  proof (cases "startsWith (name tune) ''size''")
    case True
    with fresh JBool show ?thesis
      by (simp add: restore_tune_def setTune_data)
  next
    case False
    with JBool have "data t (name tune) = JBool b"
      by (simp add: isTuneActive_def)
    with False JBool show ?thesis
      by (simp add: restore_tune_def setTune_data assign_boolean_same)
  qed
qed (simp_all add: restore_tune_def)

lemma restore_data: "\<not> isDataInit s \<Longrightarrow> data (foldl restore_tune s ts) = data s"
  by (induction ts arbitrary: s) (simp_all add: restore_tune_data)

lemma data_constructor:
  "data (constructor d) =
     default_data(''file'' := (if truthy (d ''file'') then d ''file'' else JFile \<lparr>url = ''''\<rparr>),
                  ''size'' := d ''size'')"
  by (simp add: constructor_def fresh_tool_def set_data_def Let_def restore_data set_image_data)

lemma init_constructor [simp]: "isDataInit (constructor d)"
  by (simp add: constructor_def set_data_def Let_def)

text \<open>
  The saved border flag is not read: the loop of \<open>set data\<close> asks \<open>isTuneActive\<close>, which
  reads the tool's own data, where \<open>withBorder\<close> still has its default.
\<close>

lemma constructor_withBorder: "save (constructor d) ''withBorder'' = JBool False"
  by (simp add: save_def data_constructor default_data_def)

text \<open>\<open>validate\<close> on an object that has no \<open>file\<close> throws.\<close>

lemma validate_no_file: "d ''file'' = JUndefined \<Longrightarrow> validate d = Inl TypeError"
  by (simp add: validate_def)

text \<open>
  Names the data inherits: \<open>isTuneActive\<close> finds the inherited value, and \<open>tuneToggled\<close>
  therefore stores \<open>false\<close> under a name such as \<open>toString\<close>.
\<close>

lemma inherited_names:
  "isTuneActive (constructor d) ''toString'' = JFunction ''toString''"
  "isTuneActive (constructor d) ''__proto__'' = JObjectPrototype"
  "data (tuneToggled ''toString'' (constructor d)) ''toString'' = JBool False"
  by (simp_all add: isTuneActive_def tuneToggled_def setTune_data data_constructor
        default_data_def assign_boolean_def)

section \<open>Tunes\<close>

text \<open>
  Claim C4. For a name that does not start with \<open>size\<close>, \<open>isTuneActive\<close> returns the
  value of the property of that name in the data. For a name that starts with \<open>size\<close>
  it returns a boolean: false when \<open>size\<close> is unset, and otherwise true exactly when
  \<open>"size"\<close> followed by the stored size is the name, that is, when the stored size is the
  name's suffix after \<open>size\<close>.
\<close>

theorem isTuneActive_semantics:
  "(\<not> startsWith n ''size'' \<longrightarrow> isTuneActive s n = data s n) \<and>
   (startsWith n ''size'' \<longrightarrow> data s ''size'' = JString p \<longrightarrow>
      isTuneActive s n = JBool (p = drop 4 n)) \<and>
   (startsWith n ''size'' \<longrightarrow> data s ''size'' = JUndefined \<longrightarrow>
      isTuneActive s n = JBool False) \<and>
   (startsWith n ''size'' \<longrightarrow>
      isTuneActive s n =
        JBool (data s ''size'' \<noteq> JUndefined \<and> ''size'' @ js_to_string (data s ''size'') = n))"
  by (simp add: isTuneActive_def size_name_eq_cons)

theorem isTuneActive_semantics_witness:
  "data (constructor saved_example) ''size'' = JString ''50'' \<and>
   isTuneActive (constructor saved_example) ''withBorder'' = JBool False \<and>
   isTuneActive (constructor saved_example) ''size50'' = JBool True \<and>
   isTuneActive (constructor saved_example) ''size30'' = JBool False \<and>
   data (constructor empty_object) ''size'' = JUndefined \<and>
   isTuneActive (constructor empty_object) ''size50'' = JBool False"
  using isTuneActive_semantics [of "''withBorder''" "constructor saved_example"]
    isTuneActive_semantics [of "''size50''" "constructor saved_example" "''50''"]
    isTuneActive_semantics [of "''size30''" "constructor saved_example" "''50''"]
    isTuneActive_semantics [of "''size50''" "constructor empty_object"]
  by (simp add: data_constructor default_data_def saved_example_def)

text \<open>
  Claim C3, as the code has it. Once \<open>isDataInit\<close> is set: \<open>setTune\<close> with a size name
  and \<open>true\<close> removes the marker of every other active built-in size tune and tells the
  rendering module, then stores the name's suffix after \<open>size\<close> as the size, so that
  afterwards the named tune is active and no other size name is; with a size name and
  \<open>false\<close> it unsets the size; with any other name except \<open>__proto__\<close> it stores the
  value in the property of that name; with the name \<open>__proto__\<close> it leaves the data as it
  is. The data is otherwise unchanged.
\<close>

theorem setTune_postconditions:
  "isDataInit s \<Longrightarrow>
   (startsWith n ''size'' \<longrightarrow>
      data (setTune n True s) = (data s)(''size'' := JString (drop 4 n)) \<and>
      effects (setTune n True s) =
        effects s @ deactivations n s tunes @ [ApplyTune n (JBool True)] \<and>
      (\<forall>m. startsWith m ''size'' \<and> m \<noteq> n \<longrightarrow>
            isTuneActive (setTune n True s) m = JBool False) \<and>
      isTuneActive (setTune n True s) n = JBool True \<and>
      data (setTune n False s) = (data s)(''size'' := JUndefined)) \<and>
   (\<not> startsWith n ''size'' \<longrightarrow> n \<noteq> ''__proto__'' \<longrightarrow>
      data (setTune n v s) = (data s)(n := JBool v)) \<and>
   data (setTune ''__proto__'' v s) = data s"
  by (auto simp: setTune_data setTune_effects isTuneActive_def size_name_eq_cons
        size_split_cons assign_boolean_def)

theorem setTune_postconditions_witness:
  "isDataInit (constructor saved_example) \<and>
   isTuneActive (constructor saved_example) ''size50'' = JBool True \<and>
   data (setTune ''size30'' True (constructor saved_example)) ''size'' = JString ''30'' \<and>
   effects (setTune ''size30'' True (constructor saved_example)) =
     effects (constructor saved_example) @
     [RemoveActiveMarker ''size50'', ApplyTune ''size50'' (JBool False),
      ApplyTune ''size30'' (JBool True)] \<and>
   isTuneActive (setTune ''size30'' True (constructor saved_example)) ''size50''
     = JBool False \<and>
   data (setTune ''size30'' False (constructor saved_example)) ''size'' = JUndefined \<and>
   data (setTune ''withBorder'' True (constructor saved_example)) ''withBorder''
     = JBool True \<and>
   data (setTune ''__proto__'' True (constructor saved_example)) ''__proto__''
     = JObjectPrototype"
  using setTune_postconditions [of "constructor saved_example" "''size30''"]
    setTune_postconditions [of "constructor saved_example" "''withBorder''" True]
  by (simp add: four_eq deactivations_def tunes_def isTuneActive_def data_constructor
        default_data_def saved_example_def)

text \<open>
  The name \<open>__proto__\<close> does not start with \<open>size\<close>, and \<open>setTune\<close> with it and \<open>true\<close>
  stores nothing: the property still reads as the prototype.
\<close>

theorem setTune_proto_counterexample:
  "isDataInit (constructor saved_example) \<and>
   \<not> startsWith ''__proto__'' ''size'' \<and>
   data (setTune ''__proto__'' True (constructor saved_example)) ''__proto__''
     = JObjectPrototype \<and>
   data (setTune ''__proto__'' True (constructor saved_example)) ''__proto__''
     \<noteq> JBool True"
  by (simp add: setTune_data assign_boolean_def data_constructor default_data_def
        saved_example_def)

text \<open>
  Claim C9. While \<open>isDataInit\<close> is still false, \<open>setTune\<close> with a size name leaves the
  whole data as it is, whatever the value, and only tells the rendering module; so the
  size that \<open>set data\<close> has copied from the saved data is the size of the constructed
  block.
\<close>

theorem setTune_before_init:
  "\<not> isDataInit s \<Longrightarrow> startsWith n ''size'' \<Longrightarrow>
     data (setTune n v s) = data s \<and>
     effects (setTune n v s) = effects s @ [ApplyTune n (JBool v)] \<and>
     save (constructor d) ''size'' = d ''size''"
  by (simp add: setTune_data setTune_effects save_def data_constructor)

theorem setTune_before_init_witness:
  "\<not> isDataInit (fresh_tool\<lparr>data := default_data(''size'' := JString ''50'')\<rparr>) \<and>
   startsWith ''size30'' ''size'' \<and>
   data (setTune ''size30'' True (fresh_tool\<lparr>data := default_data(''size'' := JString ''50'')\<rparr>))
     ''size'' = JString ''50'' \<and>
   data (setTune ''size50'' False (fresh_tool\<lparr>data := default_data(''size'' := JString ''50'')\<rparr>))
     ''size'' = JString ''50'' \<and>
   save (constructor saved_example) ''size'' = JString ''50''"
  using setTune_before_init [of "fresh_tool\<lparr>data := default_data(''size'' := JString ''50'')\<rparr>"
      "''size30''" True saved_example]
    setTune_before_init [of "fresh_tool\<lparr>data := default_data(''size'' := JString ''50'')\<rparr>"
      "''size50''" False saved_example]
  by (simp add: fresh_tool_def saved_example_def)

text \<open>
  Claim C2. In every state, and so in every state a block reaches through any calls of
  \<open>setTune\<close>, \<open>tuneToggled\<close> and the upload callbacks, at most one of \<open>size30\<close>,
  \<open>size50\<close>, \<open>size70\<close>, \<open>size100\<close> is active. Setting a size tune does not change
  whether \<open>withBorder\<close> is active, and setting \<open>withBorder\<close> does not change whether a
  size tune is active.
\<close>

theorem size_tunes_exclusive:
  "size_tunes = [''size30'', ''size50'', ''size70'', ''size100''] \<and>
   length (active_size_tunes (run s evs)) \<le> 1 \<and>
   (startsWith n ''size'' \<longrightarrow>
      isTuneActive (setTune n v s) ''withBorder'' = isTuneActive s ''withBorder'') \<and>
   (\<forall>m \<in> set size_tunes.
      isTuneActive (setTune ''withBorder'' v s) m = isTuneActive s m)"
proof (intro conjI)
  show "size_tunes = [''size30'', ''size50'', ''size70'', ''size100'']"
    by (rule size_tunes_eq)
  show "length (active_size_tunes (run s evs)) \<le> 1"
    by (simp add: active_size_tunes_def size_tunes_eq isTuneActive_def)
  show "startsWith n ''size'' \<longrightarrow>
          isTuneActive (setTune n v s) ''withBorder'' = isTuneActive s ''withBorder''"
    by (simp add: isTuneActive_def setTune_data)
  show "\<forall>m \<in> set size_tunes.
          isTuneActive (setTune ''withBorder'' v s) m = isTuneActive s m"
    by (simp add: size_tunes_eq isTuneActive_def setTune_data assign_boolean_def)
qed

theorem size_tunes_exclusive_witness:
  "active_size_tunes
     (run (constructor saved_example)
        [SetTune ''size30'' True, SetTune ''size70'' True]) = [''size70''] \<and>
   startsWith ''size30'' ''size'' \<and>
   isTuneActive (setTune ''size30'' True (constructor saved_example)) ''withBorder''
     = JBool False \<and>
   isTuneActive (constructor saved_example) ''withBorder'' = JBool False \<and>
   ''size50'' \<in> set size_tunes \<and>
   isTuneActive (setTune ''withBorder'' True (constructor saved_example)) ''size50''
     = JBool True \<and>
   isTuneActive (constructor saved_example) ''size50'' = JBool True"
  using size_tunes_exclusive [of "constructor saved_example"
      "[SetTune ''size30'' True, SetTune ''size70'' True]"
      "''size30''" True]
  by (simp add: size_tunes_eq active_size_tunes_def run_def isTuneActive_def setTune_data
        assign_boolean_def four_eq data_constructor default_data_def saved_example_def)

section \<open>Saved data\<close>

text \<open>
  Claim C1, as the code has it. For saved data with a file of non-empty url, a caption,
  a border flag and a size that is unset or one of the four percentages, the block
  constructed from it saves the same file and the same size, and an empty caption:
  \<open>set data\<close> copies \<open>file\<close> and \<open>size\<close>, and the line that copied the caption is
  commented out.
\<close>

theorem round_trip_file_size:
  "valid_block_data d \<Longrightarrow>
     save (constructor d) ''file'' = d ''file'' \<and>
     save (constructor d) ''size'' = d ''size'' \<and>
     save (constructor d) ''caption'' = JString ''''"
  by (auto simp: save_def data_constructor default_data_def valid_block_data_def
        split: jsval.splits)

theorem round_trip_file_size_witness:
  "valid_block_data saved_example \<and>
   save (constructor saved_example) ''file'' = JFile \<lparr>url = ''http://x/y.png''\<rparr> \<and>
   save (constructor saved_example) ''size'' = JString ''50'' \<and>
   save (constructor saved_example) ''caption'' = JString ''''"
proof -
  have v: "valid_block_data saved_example"
    by (simp add: valid_block_data_def saved_example_def)
  show ?thesis
    using v round_trip_file_size [OF v] by (simp add: saved_example_def)
qed

text \<open>
  The round trip of all four fields fails on valid saved data whose caption is not
  empty: the caption saved after construction is the empty string.
\<close>

theorem round_trip_counterexample:
  "valid_block_data saved_example \<and>
   saved_example ''caption'' = JString ''Hi'' \<and>
   save (constructor saved_example) ''caption'' = JString '''' \<and>
   save (constructor saved_example) ''caption'' \<noteq> saved_example ''caption''"
  by (simp add: valid_block_data_def saved_example_def save_def data_constructor
        default_data_def)

text \<open>A call that does not name the caption leaves it as it is.\<close>

lemma step_caption:
  "\<not> writes_caption e \<Longrightarrow> data (step s e) ''caption'' = data s ''caption''"
  by (cases e) (auto simp: setTune_data assign_boolean_def tuneToggled_def onUpload_def
                     set_image_data split: option.splits)

lemma run_caption:
  "\<forall>e \<in> set evs. \<not> writes_caption e \<Longrightarrow> data (run s evs) ''caption'' = data s ''caption''"
  unfolding run_def by (induction evs arbitrary: s) (simp_all add: step_caption)

text \<open>
  Claim C10, as the code has it. Whatever the saved data, the caption of a constructed
  block is the empty string, and it stays the empty string through every history of
  calls in which \<open>setTune\<close> and \<open>tuneToggled\<close> are not given the name \<open>caption\<close>, so that
  \<open>save\<close> returns an empty caption there. \<open>setTune\<close> with the name \<open>caption\<close> stores its
  value as the caption.
\<close>

theorem caption_stays_empty:
  "save (constructor d) ''caption'' = JString '''' \<and>
   ((\<forall>e \<in> set evs. \<not> writes_caption e) \<longrightarrow>
      save (run (constructor d) evs) ''caption'' = JString '''') \<and>
   data (setTune ''caption'' v s) ''caption'' = JBool v"
  by (simp add: save_def run_caption)
     (simp add: data_constructor default_data_def setTune_data assign_boolean_def)

theorem caption_stays_empty_witness:
  "saved_example ''caption'' = JString ''Hi'' \<and>
   \<not> writes_caption (SetTune ''size30'' True) \<and>
   \<not> writes_caption (TuneToggled ''withBorder'') \<and>
   \<not> writes_caption (OnUpload (Some \<lparr>success = True, file' = Some \<lparr>url = ''http://x/z.png''\<rparr>\<rparr>)) \<and>
   save (run (constructor saved_example)
           [SetTune ''size30'' True, TuneToggled ''withBorder'',
            OnUpload (Some \<lparr>success = True, file' = Some \<lparr>url = ''http://x/z.png''\<rparr>\<rparr>)])
     ''caption'' = JString ''''"
  using caption_stays_empty [of saved_example
      "[SetTune ''size30'' True, TuneToggled ''withBorder'',
        OnUpload (Some \<lparr>success = True, file' = Some \<lparr>url = ''http://x/z.png''\<rparr>\<rparr>)]"]
  by (simp add: saved_example_def)

text \<open>
  The caption is written by \<open>setTune\<close> when the tune name is \<open>caption\<close>: the branch for
  names that do not start with \<open>size\<close> assigns the property of that name.
\<close>

theorem caption_written_counterexample:
  "save (setTune ''caption'' True (constructor saved_example)) ''caption''
     = JBool True \<and>
   save (setTune ''caption'' True (constructor saved_example)) ''caption''
     \<noteq> JString ''''"
  by (simp add: save_def setTune_data assign_boolean_def)

section \<open>Upload results and validation\<close>

text \<open>
  Claim C5. A response with \<open>success\<close> false, or with \<open>success\<close> true and no file, goes to
  \<open>uploadingFailed\<close>, as an error reported by the uploader does, and \<open>onUpload\<close> returns:
  its result is a state, not an exception. The data, and so \<open>data.file\<close>, and the flag
  \<open>isDataInit\<close> are unchanged; the calls made are one \<open>console.log\<close>, one \<open>notifier.show\<close>
  with style \<open>error\<close> and one \<open>hidePreloader\<close>, in this order, so exactly one notification
  is added and the progress indicator is cleared.
\<close>

theorem upload_failure_atomic:
  "\<not> (success r \<and> file' r \<noteq> None) \<Longrightarrow>
     onUpload (Some r) s = Inr (uploadingFailed (IncorrectResponse r) s) \<and>
     (\<exists>t. onUpload (Some r) s = Inr t \<and>
          data t = data s \<and>
          data t ''file'' = data s ''file'' \<and>
          isDataInit t = isDataInit s \<and>
          effects t =
            effects s @
            [ConsoleLog ''Image Tool: uploading failed because of'' (IncorrectResponse r),
             NotifierShow upload_failed_message ''error'', HidePreloader] \<and>
          length (filter is_notification (effects t)) =
            length (filter is_notification (effects s)) + 1) \<and>
     data (uploadingFailed e s) = data s \<and>
     isDataInit (uploadingFailed e s) = isDataInit s \<and>
     effects (uploadingFailed e s) =
       effects s @ [ConsoleLog ''Image Tool: uploading failed because of'' e,
                    NotifierShow upload_failed_message ''error'', HidePreloader] \<and>
     length (filter is_notification (effects (uploadingFailed e s))) =
       length (filter is_notification (effects s)) + 1"
  by (auto simp: onUpload_def uploadingFailed_def split: option.splits)

theorem upload_failure_atomic_witness:
  "\<not> (success \<lparr>success = False, file' = Some \<lparr>url = ''http://x/z.png''\<rparr>\<rparr> \<and>
      file' \<lparr>success = False, file' = Some \<lparr>url = ''http://x/z.png''\<rparr>\<rparr> \<noteq> None) \<and>
   onUpload (Some \<lparr>success = False, file' = Some \<lparr>url = ''http://x/z.png''\<rparr>\<rparr>)
       (constructor saved_example) =
     Inr (uploadingFailed
            (IncorrectResponse \<lparr>success = False, file' = Some \<lparr>url = ''http://x/z.png''\<rparr>\<rparr>)
            (constructor saved_example)) \<and>
   data (uploadingFailed
           (IncorrectResponse \<lparr>success = False, file' = Some \<lparr>url = ''http://x/z.png''\<rparr>\<rparr>)
           (constructor saved_example)) ''file'' = JFile \<lparr>url = ''http://x/y.png''\<rparr> \<and>
   \<not> (success \<lparr>success = True, file' = None\<rparr> \<and>
      file' \<lparr>success = True, file' = None\<rparr> \<noteq> None) \<and>
   onUpload (Some \<lparr>success = True, file' = None\<rparr>) (constructor saved_example) =
     Inr (uploadingFailed (IncorrectResponse \<lparr>success = True, file' = None\<rparr>)
            (constructor saved_example)) \<and>
   length (filter is_notification
     (effects (uploadingFailed (IncorrectResponse \<lparr>success = True, file' = None\<rparr>)
                 (constructor saved_example)))) =
   length (filter is_notification (effects (constructor saved_example))) + 1"
  using upload_failure_atomic [of "\<lparr>success = False, file' = Some \<lparr>url = ''http://x/z.png''\<rparr>\<rparr>"
      "constructor saved_example"
      "IncorrectResponse \<lparr>success = False, file' = Some \<lparr>url = ''http://x/z.png''\<rparr>\<rparr>"]
    upload_failure_atomic [of "\<lparr>success = True, file' = None\<rparr>" "constructor saved_example"
      "IncorrectResponse \<lparr>success = True, file' = None\<rparr>"]
  by (simp add: data_constructor default_data_def saved_example_def)

text \<open>
  Claim C6. In every state, \<open>onUpload\<close> of a successful response whose file has the url
  \<open>http://x/y.png\<close> returns the state \<open>set image\<close> gives for that file: the file is the
  data's file, so that \<open>data.file.url\<close> is that url, and every other property of the data,
  \<open>withBorder\<close> and \<open>size\<close> among them, is as it was.
\<close>

theorem upload_success_frame:
  "onUpload (Some \<lparr>success = True, file' = Some \<lparr>url = ''http://x/y.png''\<rparr>\<rparr>) s =
     Inr (set_image (JFile \<lparr>url = ''http://x/y.png''\<rparr>) s) \<and>
   data (set_image (JFile \<lparr>url = ''http://x/y.png''\<rparr>) s) =
     (data s)(''file'' := JFile \<lparr>url = ''http://x/y.png''\<rparr>) \<and>
   url_of (data (set_image (JFile \<lparr>url = ''http://x/y.png''\<rparr>) s) ''file'')
     = JString ''http://x/y.png'' \<and>
   data (set_image (JFile \<lparr>url = ''http://x/y.png''\<rparr>) s) ''withBorder''
     = data s ''withBorder'' \<and>
   data (set_image (JFile \<lparr>url = ''http://x/y.png''\<rparr>) s) ''size''
     = data s ''size''"
  by (simp add: onUpload_def set_image_data)

text \<open>
  Claim C8. In every state, \<open>onUpload\<close> of a successful response whose file has the empty
  url takes the branch of \<open>set image\<close> and returns its state: the data's file becomes that
  file, whatever it was before, no call is made on a collaborator (no notification, and
  the preloader is not hidden), and \<open>validate\<close> of the saved data is false.
\<close>

theorem upload_empty_url:
  "onUpload (Some \<lparr>success = True, file' = Some \<lparr>url = ''''\<rparr>\<rparr>) s =
     Inr (set_image (JFile \<lparr>url = ''''\<rparr>) s) \<and>
   data (set_image (JFile \<lparr>url = ''''\<rparr>) s) = (data s)(''file'' := JFile \<lparr>url = ''''\<rparr>) \<and>
   effects (set_image (JFile \<lparr>url = ''''\<rparr>) s) = effects s \<and>
   validate (save (set_image (JFile \<lparr>url = ''''\<rparr>) s)) = Inr False"
  by (simp add: onUpload_def set_image_data set_image_effects validate_def save_def)

text \<open>
  Claim C7. For data that has a file, \<open>validate\<close> returns true exactly when the file's url
  is not the empty string: false for the url \<open>""\<close>, true for \<open>http://x/y.png\<close>. Two objects
  with the same \<open>file\<close> get the same answer, whatever their other properties.
\<close>

theorem validate_correct:
  "(d ''file'' = JFile f \<longrightarrow> validate d = Inr (url f \<noteq> [])) \<and>
   validate (empty_object(''file'' := JFile \<lparr>url = ''''\<rparr>)) = Inr False \<and>
   validate (empty_object(''file'' := JFile \<lparr>url = ''http://x/y.png''\<rparr>)) = Inr True \<and>
   (d ''file'' = d' ''file'' \<longrightarrow> validate d = validate d')"
  by (simp add: validate_def)

theorem validate_correct_witness:
  "saved_example ''file'' = JFile \<lparr>url = ''http://x/y.png''\<rparr> \<and>
   validate saved_example = Inr True \<and>
   saved_example ''file'' = (saved_example(''caption'' := JString '''', ''size'' := JUndefined)) ''file'' \<and>
   validate (saved_example(''caption'' := JString '''', ''size'' := JUndefined)) = Inr True"
  using validate_correct [of saved_example "\<lparr>url = ''http://x/y.png''\<rparr>"
      "saved_example(''caption'' := JString '''', ''size'' := JUndefined)"]
  by (simp add: saved_example_def validate_def)

end
